theory Spec2Isabelle
  imports Main
begin

section \<open>Data model\<close>

text \<open>
  The application is a Flask program (\<^verbatim>\<open>app.py\<close>) over an SQLite store
  (\<^verbatim>\<open>database.py\<close>). Every handler is modelled as a function from the
  database, the client's session and the request to a response, the new database and the
  new session.

  A Python value that is a \<^verbatim>\<open>str\<close> or \<^verbatim>\<open>None\<close> is a
  \<open>string option\<close>. Messages are kept as the source writes them, without the
  leading emoji (the text is ASCII).
\<close>

type_synonym member_id = "string option"

text \<open>
  The Flask session is a dictionary. The values the application stores are
  \<^verbatim>\<open>None\<close>, booleans
  (\<^verbatim>\<open>logged_in\<close>, \<^verbatim>\<open>is_admin\<close>, and \<^verbatim>\<open>_permanent\<close>, the key
  behind \<^verbatim>\<open>session.permanent\<close>), strings (\<^verbatim>\<open>member_id\<close>,
  \<^verbatim>\<open>admin_username\<close>, \<^verbatim>\<open>_csrf_token\<close>) and the list of flashed
  messages (\<^verbatim>\<open>_flashes\<close>, pairs of category and message, the key behind
  \<^verbatim>\<open>flash\<close>).
\<close>

datatype sval = SNone | SBool bool | SStr string | SFlashes "(string \<times> string) list"

type_synonym session = "string \<rightharpoonup> sval"

text \<open>Python truthiness of \<^verbatim>\<open>session.get(key)\<close>.\<close>

definition truthy :: "sval option \<Rightarrow> bool" where
  "truthy v =
     (case v of
        None \<Rightarrow> False
      | Some SNone \<Rightarrow> False
      | Some (SBool b) \<Rightarrow> b
      | Some (SStr s) \<Rightarrow> s \<noteq> []
      | Some (SFlashes fs) \<Rightarrow> fs \<noteq> [])"

text \<open>\<^verbatim>\<open>session.get('member_id')\<close> read as a member identifier.\<close>

definition session_member_id :: "session \<Rightarrow> member_id" where
  "session_member_id s = (case s ''member_id'' of Some (SStr m) \<Rightarrow> Some m | _ \<Rightarrow> None)"

text \<open>\<^verbatim>\<open>flash(message, category)\<close> appends to the session's \<^verbatim>\<open>_flashes\<close>.\<close>

definition flash :: "string \<Rightarrow> string \<Rightarrow> session \<Rightarrow> session" where
  "flash message category s =
     s(''_flashes'' \<mapsto>
         SFlashes ((case s ''_flashes'' of Some (SFlashes fs) \<Rightarrow> fs | _ \<Rightarrow> [])
                   @ [(category, message)]))"

text \<open>
  A row of table \<^verbatim>\<open>users\<close> maps a column name to its text; a column that is
  \<^verbatim>\<open>NULL\<close> is absent. The table is keyed by its primary key
  \<^verbatim>\<open>member_id\<close>, which the row itself does not repeat. A row of
  \<^verbatim>\<open>login_logs\<close> is the member identifier and the success flag (the
  identifier and the time stamp that SQLite fills in are left out). Table
  \<^verbatim>\<open>admin_users\<close> is read by no operation modelled here.
\<close>

type_synonym row = "string \<rightharpoonup> string"

record database =
  users :: "string \<rightharpoonup> row"
  login_logs :: "(member_id \<times> bool) list"

datatype db_error = Integrity_error string

datatype http_method = GET | POST

text \<open>\<^verbatim>\<open>request.method\<close> is the field \<open>request_method\<close>.\<close>

record request =
  request_method :: http_method
  form :: "string \<rightharpoonup> string"
  host_url :: string

datatype endpoint =
    Home
  | Login member_id
  | User_profile member_id
  | Admin_login
  | Admin_users
  | Admin_bulk_edit

text \<open>
  A response is the template rendered with the context values the handlers pass and the
  status code, or a redirect. \<open>Profile_page user qr_code login_url is_admin_view\<close> is
  \<^verbatim>\<open>user_profile.html\<close>; its \<^verbatim>\<open>image_path\<close> value is left out.
\<close>

datatype response =
    Error_page string nat
  | Login_page row "string option"
  | Profile_page row "string option" string bool
  | Redirect endpoint

section \<open>The token serializer\<close>

text \<open>
  \<^verbatim>\<open>serializer = URLSafeSerializer(SECRET_TOKEN_KEY)\<close> is an object of the
  library itsdangerous. Its two methods are parameters of the functions that call them:
  \<open>dumps\<close> turns a payload into a token, \<open>loads\<close> returns the payload of a token
  or raises. The payload decoded from a token is a JSON value: a dictionary, whose values
  are strings or null here, or a value of another shape, on which
  \<^verbatim>\<open>data.get\<close> raises \<^verbatim>\<open>AttributeError\<close>.
\<close>

datatype payload = Payload_dict "string \<rightharpoonup> string option" | Payload_other

datatype token_error = Bad_signature | Bad_payload

type_synonym dumps_fn = "payload \<Rightarrow> string"
type_synonym loads_fn = "string \<Rightarrow> token_error + payload"

text \<open>\<^verbatim>\<open>data.get(key)\<close> on a dictionary: the value, or \<^verbatim>\<open>None\<close>.\<close>

definition dict_get :: "(string \<rightharpoonup> string option) \<Rightarrow> string \<Rightarrow> string option" where
  "dict_get d k = (case d k of None \<Rightarrow> None | Some v \<Rightarrow> v)"

section \<open>The credential store (database.py)\<close>

definition user_columns :: "string list" where
  "user_columns =
     [''member_id'', ''name'', ''date_of_birth'', ''address'', ''blood_group'', ''phone'',
      ''image_path'', ''membership_type'', ''membership_joining_date'',
      ''membership_renewal_date'', ''created_at'']"

text \<open>
  \<^verbatim>\<open>get_user_by_id\<close>: the selected columns of the row whose key is
  \<^verbatim>\<open>member_id\<close>, as a dictionary; \<^verbatim>\<open>None\<close> when no row matches.
  \<^verbatim>\<open>member_id = NULL\<close> matches no row.
\<close>

definition get_user_by_id :: "database \<Rightarrow> member_id \<Rightarrow> row option" where
  "get_user_by_id db member_id =
     (case member_id of
        None \<Rightarrow> None
      | Some m \<Rightarrow>
          (case users db m of
             None \<Rightarrow> None
           | Some r \<Rightarrow> Some ((r(''member_id'' \<mapsto> m)) |` set user_columns)))"

text \<open>
  \<^verbatim>\<open>log_login_attempt\<close>: one row appended to \<^verbatim>\<open>login_logs\<close>. The
  column \<^verbatim>\<open>member_id\<close> references \<^verbatim>\<open>users\<close> and every connection
  sets \<^verbatim>\<open>PRAGMA foreign_keys = ON\<close>, so the insert raises for an identifier
  that is not null and has no row.
\<close>

definition log_login_attempt :: "database \<Rightarrow> member_id \<Rightarrow> bool \<Rightarrow> db_error + database" where
  "log_login_attempt db member_id success =
     (case member_id of
        None \<Rightarrow> Inr (db\<lparr>login_logs := login_logs db @ [(None, success)]\<rparr>)
      | Some m \<Rightarrow>
          (case users db m of
             None \<Rightarrow> Inl (Integrity_error ''FOREIGN KEY constraint failed'')
           | Some r \<Rightarrow> Inr (db\<lparr>login_logs := login_logs db @ [(Some m, success)]\<rparr>)))"

text \<open>
  \<^verbatim>\<open>verify_password\<close>: compares the stored password with the one given and logs
  the attempt; an exception of the logging is caught and the result is
  \<^verbatim>\<open>False\<close>.
\<close>

definition verify_password :: "database \<Rightarrow> member_id \<Rightarrow> string \<Rightarrow> bool \<times> database" where
  "verify_password db member_id password =
     (let result = (case member_id of None \<Rightarrow> None | Some m \<Rightarrow> users db m);
          log_failure =
            (case log_login_attempt db member_id False of
               Inr db' \<Rightarrow> (False, db')
             | Inl e \<Rightarrow> (False, db))
      in case result of
           None \<Rightarrow> log_failure
         | Some r \<Rightarrow>
             if r ''password'' = Some password
             then (case log_login_attempt db member_id True of
                     Inr db' \<Rightarrow> (True, db')
                   | Inl e \<Rightarrow> (False, db))
             else log_failure)"

text \<open>
  \<^verbatim>\<open>change_user_password\<close>: one \<^verbatim>\<open>UPDATE\<close> of the password and of
  \<^verbatim>\<open>updated_at\<close> (\<open>now\<close> is \<^verbatim>\<open>CURRENT_TIMESTAMP\<close>); the result
  tells whether a row was changed.
\<close>

definition change_user_password ::
  "string \<Rightarrow> database \<Rightarrow> member_id \<Rightarrow> string \<Rightarrow> (bool \<times> string) \<times> database" where
  "change_user_password now db member_id new_password =
     (case member_id of
        None \<Rightarrow> ((False, ''User not found!''), db)
      | Some m \<Rightarrow>
          (case users db m of
             None \<Rightarrow> ((False, ''User not found!''), db)
           | Some r \<Rightarrow>
               ((True, ''Password changed successfully!''),
                db\<lparr>users := (users db)(m \<mapsto> r(''password'' \<mapsto> new_password,
                                                ''updated_at'' \<mapsto> now))\<rparr>)))"

text \<open>\<^verbatim>\<open>UserDB.change_own_password\<close>: verify the current password, then change.\<close>

definition db_change_own_password ::
  "string \<Rightarrow> database \<Rightarrow> member_id \<Rightarrow> string \<Rightarrow> string \<Rightarrow> (bool \<times> string) \<times> database" where
  "db_change_own_password now db member_id current_password new_password =
     (case verify_password db member_id current_password of
        (ok, db1) \<Rightarrow>
          if \<not> ok then ((False, ''Current password is incorrect!''), db1)
          else change_user_password now db1 member_id new_password)"

text \<open>
  \<^verbatim>\<open>bulk_update_users\<close> (the second definition in the class, which
  replaces the first). \<open>updates_data\<close> is a dictionary from member identifier to a
  dictionary from field to value, both kept as lists of pairs in insertion order; a value
  \<^verbatim>\<open>None\<close> is bound as \<^verbatim>\<open>NULL\<close>.
\<close>

definition updatable_fields :: "string list" where
  "updatable_fields =
     [''name'', ''date_of_birth'', ''address'', ''blood_group'', ''phone'', ''image_path'',
      ''membership_type'', ''membership_joining_date'', ''membership_renewal_date'']"

text \<open>
  The renewal date the loop adds to the \<^verbatim>\<open>SET\<close> clause when
  \<^verbatim>\<open>membership_type\<close> is among the fields. \<open>next_year\<close> is
  \<^verbatim>\<open>strptime(joining_date, '%Y-%m-%d')\<close> with the year replaced by the next
  and printed again; it is \<^verbatim>\<open>None\<close> when either step raises, which the
  source catches.
\<close>

definition renewal_assignment ::
  "(string \<Rightarrow> string option) \<Rightarrow> (string \<rightharpoonup> row) \<Rightarrow> string \<Rightarrow>
   (string \<times> string option) list \<Rightarrow> (string \<times> string option) list" where
  "renewal_assignment next_year us member_id update_data =
     (case map_of update_data ''membership_type'' of
        None \<Rightarrow> []
      | Some v \<Rightarrow>
          if v = Some ''lifetime'' then [(''membership_renewal_date'', Some ''2099-12-31'')]
          else
            (case us member_id of
               None \<Rightarrow> []
             | Some r \<Rightarrow>
                 (case r ''membership_joining_date'' of
                    None \<Rightarrow> []
                  | Some joining_date \<Rightarrow>
                      if joining_date = [] then []
                      else (case next_year joining_date of
                              None \<Rightarrow> []
                            | Some d \<Rightarrow> [(''membership_renewal_date'', Some d)]))))"

text \<open>
  \<^verbatim>\<open>UPDATE users SET ... WHERE member_id = ?\<close>: the row count and the new
  table. Column \<^verbatim>\<open>name\<close> is \<^verbatim>\<open>NOT NULL\<close>: setting it to
  \<^verbatim>\<open>NULL\<close> in a row that matches raises and leaves the row as it was. Of
  two assignments to one column the later one counts.
\<close>

definition apply_assignments :: "(string \<times> string option) list \<Rightarrow> row \<Rightarrow> row" where
  "apply_assignments set_clause r = foldl (\<lambda>r' (c, v). r'(c := v)) r set_clause"

definition execute_update ::
  "(string \<rightharpoonup> row) \<Rightarrow> (string \<times> string option) list \<Rightarrow> string \<Rightarrow>
   db_error + (nat \<times> (string \<rightharpoonup> row))" where
  "execute_update us set_clause member_id =
     (case us member_id of
        None \<Rightarrow> Inr (0, us)
      | Some r \<Rightarrow>
          if map_of (rev set_clause) ''name'' = Some None
          then Inl (Integrity_error ''NOT NULL constraint failed: users.name'')
          else Inr (1, us(member_id \<mapsto> apply_assignments set_clause r)))"

definition build_set_clause ::
  "string \<Rightarrow> (string \<Rightarrow> string option) \<Rightarrow> (string \<rightharpoonup> row) \<Rightarrow> string \<Rightarrow>
   (string \<times> string option) list \<Rightarrow> (string \<times> string option) list" where
  "build_set_clause now next_year us member_id update_data =
     filter (\<lambda>(field, value). field \<in> set updatable_fields) update_data
     @ renewal_assignment next_year us member_id update_data
     @ [(''updated_at'', Some now)]"

fun bulk_update_loop ::
  "string \<Rightarrow> (string \<Rightarrow> string option) \<Rightarrow> (string \<times> (string \<times> string option) list) list \<Rightarrow>
   nat \<times> string list \<times> database \<Rightarrow> nat \<times> string list \<times> database" where
  "bulk_update_loop now next_year [] acc = acc"
| "bulk_update_loop now next_year ((member_id, update_data) # rest) (success_count, errors, db) =
     (case execute_update (users db)
             (build_set_clause now next_year (users db) member_id update_data) member_id of
        Inr (rowcount, us') \<Rightarrow>
          bulk_update_loop now next_year rest
            (if rowcount > 0 then success_count + 1 else success_count, errors,
             db\<lparr>users := us'\<rparr>)
      | Inl (Integrity_error msg) \<Rightarrow>
          bulk_update_loop now next_year rest
            (success_count, errors @ [''Error updating '' @ member_id @ '': '' @ msg], db))"

definition bulk_update_users ::
  "string \<Rightarrow> (string \<Rightarrow> string option) \<Rightarrow> database \<Rightarrow>
   (string \<times> (string \<times> string option) list) list \<Rightarrow> nat \<times> string list \<times> database" where
  "bulk_update_users now next_year db updates_data =
     bulk_update_loop now next_year updates_data (0, [], db)"

section \<open>The handlers (app.py)\<close>

text \<open>
  The hook \<^verbatim>\<open>make_session_permanent\<close> runs before every handler and belongs
  to none of them; a handler is modelled from the session the hook leaves.
\<close>

text \<open>
  \<^verbatim>\<open>generate_qr_code\<close>: the image and the login URL, or
  \<^verbatim>\<open>(None, None)\<close> when the identifier is empty or the rendering raises.
  \<open>qr_png\<close> is the rendering of a URL as a base64 PNG by the library qrcode,
  \<^verbatim>\<open>None\<close> when it raises.
\<close>

definition generate_qr_code ::
  "dumps_fn \<Rightarrow> (string \<Rightarrow> string option) \<Rightarrow> member_id \<Rightarrow> string \<Rightarrow>
   string option \<times> string option" where
  "generate_qr_code dumps qr_png member_id base_url =
     (case member_id of
        None \<Rightarrow> (None, None)
      | Some m \<Rightarrow>
          if m = [] then (None, None)
          else
            (let token = dumps (Payload_dict [''member_id'' \<mapsto> Some m]);
                 login_url = base_url @ ''secure-login/'' @ token
             in case qr_png login_url of
                  None \<Rightarrow> (None, None)
                | Some qr_base64 \<Rightarrow> (Some qr_base64, Some login_url)))"

text \<open>The decorator \<^verbatim>\<open>admin_required\<close>, applied to a handler's result.\<close>

definition admin_required ::
  "database \<Rightarrow> session \<Rightarrow> response \<times> database \<times> session \<Rightarrow> response \<times> database \<times> session" where
  "admin_required db s f =
     (if \<not> truthy (s ''is_admin'') then (Redirect Admin_login, db, s) else f)"

definition sval_of :: "member_id \<Rightarrow> sval" where
  "sval_of member_id = (case member_id of None \<Rightarrow> SNone | Some m \<Rightarrow> SStr m)"

text \<open>\<^verbatim>\<open>login\<close>, the handler of \<^verbatim>\<open>/login/<member_id>\<close>.\<close>

definition login ::
  "database \<Rightarrow> session \<Rightarrow> request \<Rightarrow> member_id \<Rightarrow> response \<times> database \<times> session" where
  "login db s req member_id =
     (case get_user_by_id db member_id of
        None \<Rightarrow> (Error_page ''User not found! Please check your QR code.'' 404, db, s)
      | Some user \<Rightarrow>
          (let cleared = (Map.empty :: session) in
           if request_method req = POST then
             (let password = (case form req ''password'' of None \<Rightarrow> [] | Some p \<Rightarrow> p) in
              if password = []
              then (Login_page user (Some ''Password is required!''), db, cleared)
              else
                (case verify_password db member_id password of
                   (password_valid, db') \<Rightarrow>
                     if password_valid
                     then (Redirect (User_profile member_id), db',
                           cleared(''member_id'' \<mapsto> sval_of member_id,
                                   ''logged_in'' \<mapsto> SBool True,
                                   ''_permanent'' \<mapsto> SBool True))
                     else (Login_page user (Some ''Invalid password! Please try again.''),
                           db', cleared)))
           else (Login_page user None, db, cleared)))"

text \<open>
  \<^verbatim>\<open>secure_login\<close>, the handler of \<^verbatim>\<open>/secure-login/<token>\<close>.
  Every exception of \<^verbatim>\<open>serializer.loads\<close> and of
  \<^verbatim>\<open>data.get\<close> ends in the 403 page.
\<close>

definition secure_login ::
  "loads_fn \<Rightarrow> database \<Rightarrow> session \<Rightarrow> request \<Rightarrow> string \<Rightarrow> response \<times> database \<times> session" where
  "secure_login loads db s req token =
     (case loads token of
        Inl e \<Rightarrow> (Error_page ''Invalid or expired QR code!'' 403, db, s)
      | Inr Payload_other \<Rightarrow> (Error_page ''Invalid or expired QR code!'' 403, db, s)
      | Inr (Payload_dict data) \<Rightarrow> login db s req (dict_get data ''member_id''))"

text \<open>
  \<^verbatim>\<open>change_own_password\<close>, the handler of
  \<^verbatim>\<open>/change-own-password\<close>. On success the first flash is written before
  \<^verbatim>\<open>session.clear()\<close> and the second after it.
\<close>

definition change_own_password ::
  "string \<Rightarrow> database \<Rightarrow> session \<Rightarrow> request \<Rightarrow> response \<times> database \<times> session" where
  "change_own_password now db s req =
     (if \<not> truthy (s ''logged_in'')
      then (Redirect Home, db, flash ''Please login first!'' ''error'' s)
      else
        (let member_id = session_member_id s;
             all_fields_required =
               (Redirect (User_profile member_id), db,
                flash ''All fields are required!'' ''error'' s)
         in case (form req ''current_password'', form req ''new_password'',
                  form req ''confirm_password'') of
              (Some current_password, Some new_password, Some confirm_password) \<Rightarrow>
                if current_password = [] \<or> new_password = [] \<or> confirm_password = []
                then all_fields_required
                else if new_password \<noteq> confirm_password
                then (Redirect (User_profile member_id), db,
                      flash ''New password and confirmation do not match!'' ''error'' s)
                else if length new_password < 6
                then (Redirect (User_profile member_id), db,
                      flash ''Password must be at least 6 characters long!'' ''error'' s)
                else
                  (case db_change_own_password now db member_id current_password new_password of
                     ((success, message), db') \<Rightarrow>
                       if success
                       then (Redirect (Login member_id), db',
                             flash ''Please login with your new password'' ''info'' Map.empty)
                       else (Redirect (User_profile member_id), db',
                             flash message ''error'' s))
            | _ \<Rightarrow> all_fields_required))"

text \<open>
  \<^verbatim>\<open>admin_view_profile\<close>, the handler of
  \<^verbatim>\<open>/admin/view-profile/<member_id>\<close>, under \<^verbatim>\<open>admin_required\<close>.
\<close>

definition admin_view_profile ::
  "dumps_fn \<Rightarrow> (string \<Rightarrow> string option) \<Rightarrow> database \<Rightarrow> session \<Rightarrow> request \<Rightarrow> string \<Rightarrow>
   response \<times> database \<times> session" where
  "admin_view_profile dumps qr_png db s req member_id =
     admin_required db s
       (case get_user_by_id db (Some member_id) of
          None \<Rightarrow> (Redirect Admin_users, db, flash ''User not found!'' ''error'' s)
        | Some user \<Rightarrow>
            (case generate_qr_code dumps qr_png (Some member_id) (host_url req) of
               (qr_code_data, login_url) \<Rightarrow>
                 (Profile_page user qr_code_data
                    (case login_url of
                       None \<Rightarrow> host_url req @ ''login/'' @ member_id
                     | Some u \<Rightarrow> if u = [] then host_url req @ ''login/'' @ member_id else u)
                    True,
                  db, s)))"

text \<open>
  The dictionary \<^verbatim>\<open>updates_data\<close> that the handler
  \<^verbatim>\<open>admin_bulk_edit\<close> builds from the selected identifiers, the field and
  the value of the form: \<^verbatim>\<open>updates_data[member_id] = {field: value}\<close> for
  each identifier in turn.
\<close>

fun dict_set :: "('k \<times> 'v) list \<Rightarrow> 'k \<Rightarrow> 'v \<Rightarrow> ('k \<times> 'v) list" where
  "dict_set [] k v = [(k, v)]"
| "dict_set ((k', v') # d) k v = (if k' = k then (k, v) # d else (k', v') # dict_set d k v)"

definition bulk_edit_updates ::
  "string list \<Rightarrow> string \<Rightarrow> string \<Rightarrow> (string \<times> (string \<times> string option) list) list" where
  "bulk_edit_updates member_ids field value =
     foldl (\<lambda>updates_data member_id. dict_set updates_data member_id [(field, Some value)])
       [] member_ids"

section \<open>Notions for the statements about bulk update\<close>

text \<open>
  Three notions for the statements about \<^verbatim>\<open>bulk_update_users\<close>: whether the
  fields of one record end with \<^verbatim>\<open>name\<close> set to \<^verbatim>\<open>NULL\<close>
  (the \<^verbatim>\<open>UPDATE\<close> of an existing row then raises), the entry the loop
  appends to \<^verbatim>\<open>errors\<close> for it, and the row a record leaves behind when it is
  processed alone.
\<close>

definition sets_name_null :: "(string \<times> string option) list \<Rightarrow> bool" where
  "sets_name_null update_data =
     (map_of (rev (filter (\<lambda>(field, value). field \<in> set updatable_fields) update_data)) ''name''
        = Some None)"

definition bulk_error_message :: "string \<Rightarrow> string" where
  "bulk_error_message member_id =
     ''Error updating '' @ member_id @ '': '' @ ''NOT NULL constraint failed: users.name''"

definition updated_row ::
  "string \<Rightarrow> (string \<Rightarrow> string option) \<Rightarrow> (string \<rightharpoonup> row) \<Rightarrow> string \<Rightarrow>
   (string \<times> string option) list \<Rightarrow> row option" where
  "updated_row now next_year us member_id update_data =
     (case us member_id of
        None \<Rightarrow> None
      | Some r \<Rightarrow>
          Some (if sets_name_null update_data then r
                else apply_assignments
                       (build_set_clause now next_year us member_id update_data) r))"

section \<open>Example data\<close>

text \<open>
  A store with two members (the second with an empty stored password), a serializer that
  knows four tokens and rejects every other one, sessions, requests and a dictionary of
  updates. They are the concrete inputs at which the theorems below are instantiated.
\<close>

definition example_row :: "string \<Rightarrow> string \<Rightarrow> row" where
  "example_row n p =
     [''name'' \<mapsto> n, ''password'' \<mapsto> p, ''membership_type'' \<mapsto> ''annually'',
      ''membership_joining_date'' \<mapsto> ''2024-03-01'']"

definition example_db :: database where
  "example_db =
     \<lparr>users = [''M042'' \<mapsto> example_row ''Asha'' ''123456'', ''M043'' \<mapsto> example_row ''Ravi'' ''''],
      login_logs = []\<rparr>"

definition example_loads :: loads_fn where
  "example_loads t =
     (if t = ''good'' then Inr (Payload_dict [''member_id'' \<mapsto> Some ''M042''])
      else if t = ''unknown'' then Inr (Payload_dict [''member_id'' \<mapsto> Some ''M999''])
      else if t = ''nokey'' then Inr (Payload_dict [''user'' \<mapsto> Some ''M042''])
      else if t = ''list'' then Inr Payload_other
      else Inl Bad_signature)"

definition post_password :: "string \<Rightarrow> request" where
  "post_password p = \<lparr>request_method = POST, form = [''password'' \<mapsto> p], host_url = ''http://host/''\<rparr>"

definition get_request :: request where
  "get_request = \<lparr>request_method = GET, form = Map.empty, host_url = ''http://host/''\<rparr>"

definition admin_and_member_session :: session where
  "admin_and_member_session =
     [''is_admin'' \<mapsto> SBool True, ''admin_username'' \<mapsto> SStr ''admin'',
      ''member_id'' \<mapsto> SStr ''M043'', ''logged_in'' \<mapsto> SBool True]"

definition member_session :: "string \<Rightarrow> session" where
  "member_session m =
     [''member_id'' \<mapsto> SStr m, ''logged_in'' \<mapsto> SBool True, ''_permanent'' \<mapsto> SBool True]"

definition change_request :: "string \<Rightarrow> string \<Rightarrow> request" where
  "change_request c n =
     \<lparr>request_method = POST,
      form = [''current_password'' \<mapsto> c, ''new_password'' \<mapsto> n, ''confirm_password'' \<mapsto> n],
      host_url = ''http://host/''\<rparr>"

definition admin_session :: session where
  "admin_session = [''is_admin'' \<mapsto> SBool True, ''admin_username'' \<mapsto> SStr ''admin'']"

definition example_dumps :: dumps_fn where
  "example_dumps p = ''good''"

definition example_qr_png :: "string \<Rightarrow> string option" where
  "example_qr_png url = Some (''PNG:'' @ url)"

definition example_next_year :: "string \<Rightarrow> string option" where
  "example_next_year d = (if d = ''2024-03-01'' then Some ''2025-03-01'' else None)"

definition example_updates :: "(string \<times> (string \<times> string option) list) list" where
  "example_updates =
     [(''M042'', [(''membership_type'', Some ''lifetime'')]),
      (''M043'', [(''name'', None)]),
      (''M999'', [(''membership_type'', Some ''lifetime'')])]"

definition post_without_password :: request where
  "post_without_password = \<lparr>request_method = POST, form = Map.empty, host_url = ''http://host/''\<rparr>"

section \<open>Auxiliary lemmas\<close>

lemma verify_password_existing:
  assumes "users db m = Some r"
  shows "verify_password db (Some m) p =
           (r ''password'' = Some p,
            db\<lparr>login_logs := login_logs db @ [(Some m, r ''password'' = Some p)]\<rparr>)"
  using assms by (simp add: verify_password_def log_login_attempt_def)

lemma member_id_in_user_columns: "''member_id'' \<in> set user_columns"
  by (simp add: user_columns_def)

lemma get_user_by_id_member_id:
  "get_user_by_id db member_id = Some user \<Longrightarrow> user ''member_id'' = member_id"
  by (auto simp: get_user_by_id_def restrict_map_def member_id_in_user_columns split: option.splits)

lemma get_user_by_id_existing:
  "users db m = Some r \<Longrightarrow>
   get_user_by_id db (Some m) = Some ((r(''member_id'' \<mapsto> m)) |` set user_columns)"
  by (simp add: get_user_by_id_def)

lemma get_user_by_id_missing:
  "users db m = None \<Longrightarrow> get_user_by_id db (Some m) = None"
  by (simp add: get_user_by_id_def)

lemma example_users:
  "users example_db ''M042'' = Some (example_row ''Asha'' ''123456'')"
  "users example_db ''M043'' = Some (example_row ''Ravi'' '''')"
  "users example_db ''M999'' = None"
  by (simp_all add: example_db_def)

lemma login_post_nonempty:
  assumes "users db m = Some r" and "request_method req = POST"
      and "form req ''password'' = Some p" and "p \<noteq> []"
  shows "login db s req (Some m) =
           (if r ''password'' = Some p
            then (Redirect (User_profile (Some m)),
                  db\<lparr>login_logs := login_logs db @ [(Some m, True)]\<rparr>,
                  [''member_id'' \<mapsto> SStr m, ''logged_in'' \<mapsto> SBool True,
                   ''_permanent'' \<mapsto> SBool True])
            else (Login_page ((r(''member_id'' \<mapsto> m)) |` set user_columns)
                    (Some ''Invalid password! Please try again.''),
                  db\<lparr>login_logs := login_logs db @ [(Some m, False)]\<rparr>,
                  Map.empty))"
  using assms
  by (simp add: login_def Let_def get_user_by_id_existing verify_password_existing sval_of_def)

lemma login_post_without_password:
  assumes "users db m = Some r" and "request_method req = POST"
      and "form req ''password'' = None \<or> form req ''password'' = Some []"
  shows "login db s req (Some m) =
           (Login_page ((r(''member_id'' \<mapsto> m)) |` set user_columns)
              (Some ''Password is required!''),
            db, Map.empty)"
proof -
  have "(case form req ''password'' of None \<Rightarrow> [] | Some p \<Rightarrow> p) = []"
    using assms(3) by (cases "form req ''password''") simp_all
  then show ?thesis
    using assms(1,2) by (simp add: login_def Let_def get_user_by_id_existing)
qed

lemma db_change_own_password_existing:
  assumes "users db m = Some r"
  shows "db_change_own_password now db (Some m) c n =
           (if r ''password'' = Some c
            then ((True, ''Password changed successfully!''),
                  db\<lparr>login_logs := login_logs db @ [(Some m, True)],
                     users := (users db)(m \<mapsto> r(''password'' \<mapsto> n, ''updated_at'' \<mapsto> now))\<rparr>)
            else ((False, ''Current password is incorrect!''),
                  db\<lparr>login_logs := login_logs db @ [(Some m, False)]\<rparr>))"
  using assms
  by (simp add: db_change_own_password_def verify_password_existing change_user_password_def)

lemma change_own_password_valid_form:
  assumes "truthy (s ''logged_in'')" and "s ''member_id'' = Some (SStr m)"
      and "form req ''current_password'' = Some c" and "form req ''new_password'' = Some n"
      and "form req ''confirm_password'' = Some n" and "c \<noteq> []" and "6 \<le> length n"
  shows "change_own_password now db s req =
           (case db_change_own_password now db (Some m) c n of
              ((success, message), db') \<Rightarrow>
                if success
                then (Redirect (Login (Some m)), db',
                      flash ''Please login with your new password'' ''info'' Map.empty)
                else (Redirect (User_profile (Some m)), db', flash message ''error'' s))"
proof -
  have n: "n \<noteq> []" using assms(7) by auto
  show ?thesis
    using assms n by (simp add: change_own_password_def session_member_id_def Let_def)
qed

lemma example_row_password: "example_row n p ''password'' = Some p"
  by (simp add: example_row_def)

lemma member_session_facts:
  "truthy (member_session m ''logged_in'')" "member_session m ''member_id'' = Some (SStr m)"
  by (simp_all add: member_session_def truthy_def)

lemma change_request_facts:
  "form (change_request c n) ''current_password'' = Some c"
  "form (change_request c n) ''new_password'' = Some n"
  "form (change_request c n) ''confirm_password'' = Some n"
  by (simp_all add: change_request_def)

lemma get_user_by_id_password_independent:
  assumes "users db m = Some r"
  shows "get_user_by_id (db\<lparr>users := (users db)(m \<mapsto> r(''password'' := pw))\<rparr>) member_id
           = get_user_by_id db member_id"
proof -
  have np: "''password'' \<notin> set user_columns" by (simp add: user_columns_def)
  have "(r(''password'' := pw, ''member_id'' \<mapsto> m)) |` set user_columns
          = (r(''member_id'' \<mapsto> m)) |` set user_columns"
  proof
    fix c show "((r(''password'' := pw, ''member_id'' \<mapsto> m)) |` set user_columns) c
          = ((r(''member_id'' \<mapsto> m)) |` set user_columns) c"
      using np by (cases "c \<in> set user_columns") (auto simp: restrict_map_def)
  qed
  then show ?thesis
    using assms by (simp add: get_user_by_id_def split: option.split)
qed

lemma admin_session_is_admin: "truthy (admin_session ''is_admin'')"
  by (simp add: admin_session_def truthy_def)

lemma renewal_assignment_name:
  "map_of (rev (renewal_assignment next_year us m u)) ''name'' = None"
  by (simp add: renewal_assignment_def split: option.split)

lemma build_set_clause_name:
  "map_of (rev (build_set_clause now next_year us m u)) ''name'' = Some None
     \<longleftrightarrow> sets_name_null u"
  by (simp add: build_set_clause_def sets_name_null_def map_add_def renewal_assignment_name
           split: option.split)

lemma build_set_clause_cong:
  "us' m = us m \<Longrightarrow> build_set_clause now next_year us' m u = build_set_clause now next_year us m u"
  by (simp add: build_set_clause_def renewal_assignment_def cong: option.case_cong if_cong)

lemma updated_row_cong:
  "us' m = us m \<Longrightarrow> updated_row now next_year us' m u = updated_row now next_year us m u"
  by (simp add: updated_row_def build_set_clause_cong [of us' m us] cong: option.case_cong if_cong)

lemma execute_update_result:
  "execute_update us (build_set_clause now next_year us m u) m =
     (case us m of
        None \<Rightarrow> Inr (0, us)
      | Some r \<Rightarrow>
          if sets_name_null u
          then Inl (Integrity_error ''NOT NULL constraint failed: users.name'')
          else Inr (1, us(m \<mapsto> apply_assignments (build_set_clause now next_year us m u) r)))"
  by (simp add: execute_update_def build_set_clause_name split: option.split)

lemma bulk_update_step:
  "bulk_update_loop now next_year ((m, u) # rest) (c, es, db) =
     bulk_update_loop now next_year rest
       (c + (if users db m \<noteq> None \<and> \<not> sets_name_null u then 1 else 0),
        es @ (if users db m \<noteq> None \<and> sets_name_null u then [bulk_error_message m] else []),
        db\<lparr>users := (users db)(m := updated_row now next_year (users db) m u)\<rparr>)"
proof (cases "users db m")
  case None
  then have "(users db)(m := None) = users db" by (metis fun_upd_triv)
  with None show ?thesis
    by (simp add: execute_update_result updated_row_def)
next
  case (Some r)
  show ?thesis
  proof (cases "sets_name_null u")
    case True
    have "(users db)(m \<mapsto> r) = users db" using Some by (metis fun_upd_triv)
    with Some True show ?thesis
      by (simp add: execute_update_result updated_row_def bulk_error_message_def)
  next
    case False
    with Some show ?thesis
      by (simp add: execute_update_result updated_row_def)
  qed
qed

lemma bulk_update_loop_result:
  assumes "distinct (map fst upds)"
  shows "bulk_update_loop now next_year upds (c, es, db) =
           (c + length (filter (\<lambda>(m, u). users db m \<noteq> None \<and> \<not> sets_name_null u) upds),
            es @ map (\<lambda>(m, u). bulk_error_message m)
                   (filter (\<lambda>(m, u). users db m \<noteq> None \<and> sets_name_null u) upds),
            db\<lparr>users := \<lambda>m. case map_of upds m of
                                None \<Rightarrow> users db m
                              | Some u \<Rightarrow> updated_row now next_year (users db) m u\<rparr>)"
  using assms
proof (induction upds arbitrary: c es db)
  case Nil
  show ?case by simp
next
  case (Cons mu rest)
  obtain m u where mu: "mu = (m, u)" by (cases mu)
  let ?us1 = "(users db)(m := updated_row now next_year (users db) m u)"
  let ?db1 = "db\<lparr>users := ?us1\<rparr>"
  from Cons.prems mu have d: "distinct (map fst rest)" and nm: "m \<notin> fst ` set rest"
    by auto
  have same: "users ?db1 x = users db x" if "x \<noteq> m" for x
    using that by simp
  have other: "fst p \<noteq> m" if "p \<in> set rest" for p
    using that nm by blast
  have f1: "filter (\<lambda>(m, u). users ?db1 m \<noteq> None \<and> \<not> sets_name_null u) rest
          = filter (\<lambda>(m, u). users db m \<noteq> None \<and> \<not> sets_name_null u) rest"
  proof (rule filter_cong [OF refl])
    fix p assume "p \<in> set rest"
    then have "users ?db1 (fst p) = users db (fst p)" by (intro same other)
    then show "(case p of (m, u) \<Rightarrow> users ?db1 m \<noteq> None \<and> \<not> sets_name_null u)
             = (case p of (m, u) \<Rightarrow> users db m \<noteq> None \<and> \<not> sets_name_null u)"
      by (simp only: case_prod_beta)
  qed
  have f2: "filter (\<lambda>(m, u). users ?db1 m \<noteq> None \<and> sets_name_null u) rest
          = filter (\<lambda>(m, u). users db m \<noteq> None \<and> sets_name_null u) rest"
  proof (rule filter_cong [OF refl])
    fix p assume "p \<in> set rest"
    then have "users ?db1 (fst p) = users db (fst p)" by (intro same other)
    then show "(case p of (m, u) \<Rightarrow> users ?db1 m \<noteq> None \<and> sets_name_null u)
             = (case p of (m, u) \<Rightarrow> users db m \<noteq> None \<and> sets_name_null u)"
      by (simp only: case_prod_beta)
  qed
  have f3: "(\<lambda>x. case map_of rest x of
                    None \<Rightarrow> users ?db1 x
                  | Some u' \<Rightarrow> updated_row now next_year (users ?db1) x u')
          = (\<lambda>x. case map_of (mu # rest) x of
                    None \<Rightarrow> users db x
                  | Some u' \<Rightarrow> updated_row now next_year (users db) x u')"
  proof
    fix x
    show "(case map_of rest x of
             None \<Rightarrow> users ?db1 x
           | Some u' \<Rightarrow> updated_row now next_year (users ?db1) x u')
        = (case map_of (mu # rest) x of
             None \<Rightarrow> users db x
           | Some u' \<Rightarrow> updated_row now next_year (users db) x u')"
    proof (cases "x = m")
      case True
      have "map_of rest m = None" using nm by (simp add: map_of_eq_None_iff)
      with True mu show ?thesis by simp
    next
      case False
      then have "users ?db1 x = users db x" by (rule same)
      then have "updated_row now next_year (users ?db1) x u' = updated_row now next_year (users db) x u'" for u'
        by (rule updated_row_cong)
      with False mu show ?thesis by (simp split: option.split)
    qed
  qed
  have "bulk_update_loop now next_year (mu # rest) (c, es, db) =
        bulk_update_loop now next_year rest
          (c + (if users db m \<noteq> None \<and> \<not> sets_name_null u then 1 else 0),
           es @ (if users db m \<noteq> None \<and> sets_name_null u then [bulk_error_message m] else []),
           ?db1)"
    unfolding mu by (rule bulk_update_step)
  also have "\<dots> =
       (c + (if users db m \<noteq> None \<and> \<not> sets_name_null u then 1 else 0)
          + length (filter (\<lambda>(m, u). users ?db1 m \<noteq> None \<and> \<not> sets_name_null u) rest),
        (es @ (if users db m \<noteq> None \<and> sets_name_null u then [bulk_error_message m] else []))
          @ map (\<lambda>(m, u). bulk_error_message m)
              (filter (\<lambda>(m, u). users ?db1 m \<noteq> None \<and> sets_name_null u) rest),
        ?db1\<lparr>users := \<lambda>x. case map_of rest x of
                                None \<Rightarrow> users ?db1 x
                              | Some u' \<Rightarrow> updated_row now next_year (users ?db1) x u'\<rparr>)"
    by (rule Cons.IH [OF d])
  also have "\<dots> =
       (c + length (filter (\<lambda>(m, u). users db m \<noteq> None \<and> \<not> sets_name_null u) (mu # rest)),
        es @ map (\<lambda>(m, u). bulk_error_message m)
               (filter (\<lambda>(m, u). users db m \<noteq> None \<and> sets_name_null u) (mu # rest)),
        db\<lparr>users := \<lambda>x. case map_of (mu # rest) x of
                                None \<Rightarrow> users db x
                              | Some u' \<Rightarrow> updated_row now next_year (users db) x u'\<rparr>)"
  proof -
    have e1: "c + (if users db m \<noteq> None \<and> \<not> sets_name_null u then 1 else 0)
          + length (filter (\<lambda>(m, u). users ?db1 m \<noteq> None \<and> \<not> sets_name_null u) rest)
        = c + length (filter (\<lambda>(m, u). users db m \<noteq> None \<and> \<not> sets_name_null u) (mu # rest))"
      unfolding f1 by (simp add: mu)
    have e2: "(es @ (if users db m \<noteq> None \<and> sets_name_null u then [bulk_error_message m] else []))
          @ map (\<lambda>(m, u). bulk_error_message m)
              (filter (\<lambda>(m, u). users ?db1 m \<noteq> None \<and> sets_name_null u) rest)
        = es @ map (\<lambda>(m, u). bulk_error_message m)
               (filter (\<lambda>(m, u). users db m \<noteq> None \<and> sets_name_null u) (mu # rest))"
      unfolding f2 by (simp add: mu)
    have e3: "?db1\<lparr>users := \<lambda>x. case map_of rest x of
                                None \<Rightarrow> users ?db1 x
                              | Some u' \<Rightarrow> updated_row now next_year (users ?db1) x u'\<rparr>
        = db\<lparr>users := \<lambda>x. case map_of (mu # rest) x of
                                None \<Rightarrow> users db x
                              | Some u' \<Rightarrow> updated_row now next_year (users db) x u'\<rparr>"
      unfolding f3 by simp
    show ?thesis by (simp only: e1 e2 e3)
  qed
  finally show ?case .
qed

lemma dict_set_keys: "set (map fst (dict_set d k v)) = insert k (set (map fst d))"
proof (induction d)
  case Nil
  show ?case by simp
next
  case (Cons a d)
  obtain k' v' where a: "a = (k', v')" by (cases a)
  show ?case
  proof (cases "k' = k")
    case True
    then show ?thesis by (simp add: a)
  next
    case False
    then show ?thesis using Cons.IH by (simp add: a insert_commute)
  qed
qed

lemma dict_set_distinct: "distinct (map fst d) \<Longrightarrow> distinct (map fst (dict_set d k v))"
proof (induction d)
  case Nil
  show ?case by simp
next
  case (Cons a d)
  obtain k' v' where a: "a = (k', v')" by (cases a)
  from Cons.prems a have d: "distinct (map fst d)" and n: "k' \<notin> set (map fst d)" by auto
  show ?case
  proof (cases "k' = k")
    case True
    with Cons.prems a show ?thesis by simp
  next
    case False
    from Cons.IH [OF d] have "distinct (map fst (dict_set d k v))" .
    moreover have "k' \<notin> set (map fst (dict_set d k v))"
      using n False unfolding dict_set_keys by simp
    ultimately show ?thesis using False a by simp
  qed
qed

lemma foldl_dict_set_distinct:
  "distinct (map fst d) \<Longrightarrow> distinct (map fst (foldl (\<lambda>acc k. dict_set acc k (f k)) d ks))"
  by (induction ks arbitrary: d) (simp_all add: dict_set_distinct)

lemma bulk_edit_updates_distinct: "distinct (map fst (bulk_edit_updates member_ids field value))"
  unfolding bulk_edit_updates_def
  by (rule foldl_dict_set_distinct) simp

lemma example_sets_name_null:
  "\<not> sets_name_null [(''membership_type'', Some ''lifetime'')]"
  "sets_name_null [(''name'', None)]"
  by (simp_all add: sets_name_null_def updatable_fields_def)

lemma example_updates_distinct: "distinct (map fst example_updates)"
  by (simp add: example_updates_def)

lemma example_bulk_edit_updates:
  "bulk_edit_updates [''M042'', ''M043'', ''M999''] ''membership_type'' ''lifetime'' =
     [(''M042'', [(''membership_type'', Some ''lifetime'')]),
      (''M043'', [(''membership_type'', Some ''lifetime'')]),
      (''M999'', [(''membership_type'', Some ''lifetime'')])]"
  by (simp add: bulk_edit_updates_def)

section \<open>Secure login\<close>

text \<open>
  The token in a QR code is \<^verbatim>\<open>serializer.dumps({'member_id': m})\<close>, and
  \<^verbatim>\<open>secure_login\<close> reads the key \<^verbatim>\<open>member_id\<close> of what
  \<^verbatim>\<open>serializer.loads\<close> returns. Whether \<^verbatim>\<open>loads\<close> returns what
  \<^verbatim>\<open>dumps\<close> was given is decided inside the library; for a serializer that
  does, the minted token leads to the login of the same member.
\<close>

lemma minted_token_reaches_login:
  assumes "generate_qr_code dumps qr_png (Some m) base_url = (Some qr, Some url)"
      and "loads (dumps (Payload_dict [''member_id'' \<mapsto> Some m]))
             = Inr (Payload_dict [''member_id'' \<mapsto> Some m])"
  shows "url = base_url @ ''secure-login/'' @ dumps (Payload_dict [''member_id'' \<mapsto> Some m])"
    and "secure_login loads db s req (dumps (Payload_dict [''member_id'' \<mapsto> Some m]))
           = login db s req (Some m)"
proof -
  show "url = base_url @ ''secure-login/'' @ dumps (Payload_dict [''member_id'' \<mapsto> Some m])"
    using assms(1)
    by (simp add: generate_qr_code_def Let_def split: if_splits option.splits)
  show "secure_login loads db s req (dumps (Payload_dict [''member_id'' \<mapsto> Some m]))
           = login db s req (Some m)"
    using assms(2) by (simp add: secure_login_def dict_get_def)
qed

text \<open>
  Claim C3. When \<^verbatim>\<open>serializer.loads\<close> raises on the token, whatever the
  request, the database and the session are, \<^verbatim>\<open>secure_login\<close> answers with
  the error page and status 403, and returns the database and the session as it found
  them: no login page is rendered, no session key is written, and
  \<^verbatim>\<open>login_logs\<close>, which \<^verbatim>\<open>verify_password\<close> extends for every
  member it is asked about (lemma \<open>verify_password_existing\<close>), is unchanged.
\<close>

theorem secure_login_rejects_undecodable:
  assumes "loads token = Inl e"
  shows "secure_login loads db s req token = (Error_page ''Invalid or expired QR code!'' 403, db, s)"
  using assms by (simp add: secure_login_def)

theorem secure_login_rejects_undecodable_witness:
  "secure_login example_loads example_db Map.empty (post_password ''123456'') ''garbage''
     = (Error_page ''Invalid or expired QR code!'' 403, example_db, Map.empty)"
  using secure_login_rejects_undecodable [of example_loads "''garbage''" Bad_signature]
  by (simp add: example_loads_def)

text \<open>
  Claim C4. When the token decodes to a dictionary whose \<^verbatim>\<open>member_id\<close> is
  \<open>m\<close>, \<^verbatim>\<open>secure_login\<close> is \<^verbatim>\<open>login\<close> at \<open>m\<close>. If \<open>m\<close>
  has a row, a GET shows the login page of that row, whose \<^verbatim>\<open>member_id\<close> is
  \<open>m\<close>, with no error message, a cleared session and an untouched database; if
  \<open>m\<close> has no row, the answer is the error page with status 404.
\<close>

theorem secure_login_valid_token:
  assumes "loads token = Inr (Payload_dict data)" and "data ''member_id'' = Some (Some m)"
  shows "secure_login loads db s req token = login db s req (Some m) \<and>
         (\<forall>user. get_user_by_id db (Some m) = Some user \<and> request_method req = GET \<longrightarrow>
            secure_login loads db s req token = (Login_page user None, db, Map.empty) \<and>
            user ''member_id'' = Some m) \<and>
         (get_user_by_id db (Some m) = None \<longrightarrow>
            secure_login loads db s req token =
              (Error_page ''User not found! Please check your QR code.'' 404, db, s))"
proof -
  have eq: "secure_login loads db s req token = login db s req (Some m)"
    using assms by (simp add: secure_login_def dict_get_def)
  have a: "secure_login loads db s req token = (Login_page user None, db, Map.empty) \<and>
           user ''member_id'' = Some m"
    if "get_user_by_id db (Some m) = Some user" "request_method req = GET" for user
    using that get_user_by_id_member_id [OF that(1)] unfolding eq by (simp add: login_def)
  have b: "secure_login loads db s req token =
              (Error_page ''User not found! Please check your QR code.'' 404, db, s)"
    if "get_user_by_id db (Some m) = None"
    using that unfolding eq by (simp add: login_def)
  from eq a b show ?thesis by blast
qed

theorem secure_login_valid_token_witness:
  "secure_login example_loads example_db [''is_admin'' \<mapsto> SBool True] get_request ''good''
     = login example_db [''is_admin'' \<mapsto> SBool True] get_request (Some ''M042'') \<and>
   secure_login example_loads example_db [''is_admin'' \<mapsto> SBool True] get_request ''good''
     = (Login_page ((example_row ''Asha'' ''123456'')(''member_id'' \<mapsto> ''M042'') |` set user_columns) None,
        example_db, Map.empty) \<and>
   secure_login example_loads example_db Map.empty get_request ''unknown''
     = (Error_page ''User not found! Please check your QR code.'' 404, example_db, Map.empty)"
proof -
  have l1: "example_loads ''good'' = Inr (Payload_dict [''member_id'' \<mapsto> Some ''M042''])"
    by (simp add: example_loads_def)
  have l2: "example_loads ''unknown'' = Inr (Payload_dict [''member_id'' \<mapsto> Some ''M999''])"
    by (simp add: example_loads_def)
  have g: "request_method get_request = GET" by (simp add: get_request_def)
  note u1 = get_user_by_id_existing [OF example_users(1)]
  note u2 = get_user_by_id_missing [OF example_users(3)]
  have d1: "[''member_id'' \<mapsto> Some ''M042''] ''member_id'' = Some (Some ''M042'')" by simp
  have d2: "[''member_id'' \<mapsto> Some ''M999''] ''member_id'' = Some (Some ''M999'')" by simp
  note t1 = secure_login_valid_token
         [where loads = example_loads and token = "''good''"
            and data = "[''member_id'' \<mapsto> Some ''M042'']" and m = "''M042''"
            and db = example_db and s = "[''is_admin'' \<mapsto> SBool True]" and req = get_request,
          OF l1 d1]
  note t2 = secure_login_valid_token
         [where loads = example_loads and token = "''unknown''"
            and data = "[''member_id'' \<mapsto> Some ''M999'']" and m = "''M999''"
            and db = example_db and s = Map.empty and req = get_request,
          OF l2 d2]
  from t1 t2 u1 u2 g show ?thesis by blast
qed

text \<open>
  Claim C10. When the token decodes to a dictionary without the key
  \<^verbatim>\<open>member_id\<close>, \<^verbatim>\<open>data.get\<close> gives \<^verbatim>\<open>None\<close>, no row
  matches, and the answer is the user-not-found page with status 404, not the 403 page;
  the database and the session are returned as they were.
\<close>

theorem secure_login_payload_without_member_id:
  assumes "loads token = Inr (Payload_dict data)" and "data ''member_id'' = None"
  shows "secure_login loads db s req token =
           (Error_page ''User not found! Please check your QR code.'' 404, db, s)"
  using assms by (simp add: secure_login_def dict_get_def login_def get_user_by_id_def)

theorem secure_login_payload_without_member_id_witness:
  "secure_login example_loads example_db Map.empty (post_password ''123456'') ''nokey''
     = (Error_page ''User not found! Please check your QR code.'' 404, example_db, Map.empty)"
proof -
  have l: "example_loads ''nokey'' = Inr (Payload_dict [''user'' \<mapsto> Some ''M042''])"
    by (simp add: example_loads_def)
  show ?thesis
    using l secure_login_payload_without_member_id
            [where loads = example_loads and token = "''nokey''"
               and data = "[''user'' \<mapsto> Some ''M042'']"]
    by simp
qed

section \<open>Login\<close>

text \<open>
  Claim C9. When the identifier has a row, \<^verbatim>\<open>login\<close> clears the session
  before it looks at the request: its whole result is the one it gives from the empty
  session, for GET and for POST. The session it returns is empty or holds exactly the
  three keys of a successful login, so \<^verbatim>\<open>is_admin\<close> and
  \<^verbatim>\<open>admin_username\<close> are gone in every case, and after a GET it is empty:
  opening the login page of a member ends an admin session and the session of any other
  member.
\<close>

theorem login_clears_session:
  assumes "get_user_by_id db member_id = Some user"
  shows "login db s req member_id = login db Map.empty req member_id \<and>
         (snd (snd (login db s req member_id)) = Map.empty \<or>
          snd (snd (login db s req member_id)) =
            [''member_id'' \<mapsto> sval_of member_id, ''logged_in'' \<mapsto> SBool True,
             ''_permanent'' \<mapsto> SBool True]) \<and>
         snd (snd (login db s req member_id)) ''is_admin'' = None \<and>
         snd (snd (login db s req member_id)) ''admin_username'' = None \<and>
         (request_method req = GET \<longrightarrow>
            login db s req member_id = (Login_page user None, db, Map.empty))"
  using assms by (simp add: login_def Let_def split: prod.split)

theorem login_clears_session_witness:
  "truthy (admin_and_member_session ''is_admin'') \<and>
   truthy (admin_and_member_session ''logged_in'') \<and>
   login example_db admin_and_member_session get_request (Some ''M042'') =
     login example_db Map.empty get_request (Some ''M042'') \<and>
   snd (snd (login example_db admin_and_member_session get_request (Some ''M042''))) = Map.empty \<and>
   snd (snd (login example_db admin_and_member_session (post_password ''123456'') (Some ''M042'')))
      ''is_admin'' = None"
proof -
  note u = get_user_by_id_existing [OF example_users(1)]
  have g: "request_method get_request = GET" by (simp add: get_request_def)
  have a: "truthy (admin_and_member_session ''is_admin'')"
          "truthy (admin_and_member_session ''logged_in'')"
    by (simp_all add: admin_and_member_session_def truthy_def)
  note t1 = login_clears_session [OF u, of admin_and_member_session get_request]
  note t2 = login_clears_session [OF u, of admin_and_member_session "post_password ''123456''"]
  have c1: "login example_db admin_and_member_session get_request (Some ''M042'') =
            login example_db Map.empty get_request (Some ''M042'')"
    using t1 by blast
  have c2: "login example_db admin_and_member_session get_request (Some ''M042'') =
            (Login_page ((example_row ''Asha'' ''123456'')(''member_id'' \<mapsto> ''M042'')
                          |` set user_columns) None,
             example_db, Map.empty)"
    using t1 g by blast
  have c3: "snd (snd (login example_db admin_and_member_session get_request (Some ''M042'')))
            = Map.empty"
    by (simp only: c2 snd_conv)
  have c4: "snd (snd (login example_db admin_and_member_session (post_password ''123456'')
                        (Some ''M042''))) ''is_admin'' = None"
    using t2 by blast
  from a c1 c3 c4 show ?thesis by blast
qed

text \<open>
  Claim C6, amended. For a POST to the login page of a member that has a row. With a
  password that is not empty, the result database is the one \<^verbatim>\<open>verify_password\<close>
  returns, with one more row in \<^verbatim>\<open>login_logs\<close> whose flag tells whether
  the password is the stored one: a correct password redirects to the profile with the
  session of the member established; an incorrect one shows the login page again with an
  empty session. With an empty password, or with no password field in the form, the
  answer is the login page with \<^verbatim>\<open>Password is required!\<close>, an empty session
  and the database as it was: \<^verbatim>\<open>login_logs\<close> is unchanged, while every call
  of \<^verbatim>\<open>verify_password\<close> for the member changes it, so no password is
  verified and no attempt is logged.
\<close>

theorem login_password_submission:
  assumes "users db m = Some r" and "request_method req = POST"
  shows "(\<forall>p. form req ''password'' = Some p \<and> p \<noteq> [] \<longrightarrow>
            login db s req (Some m) =
              (if r ''password'' = Some p
               then (Redirect (User_profile (Some m)),
                     db\<lparr>login_logs := login_logs db @ [(Some m, True)]\<rparr>,
                     [''member_id'' \<mapsto> SStr m, ''logged_in'' \<mapsto> SBool True,
                      ''_permanent'' \<mapsto> SBool True])
               else (Login_page ((r(''member_id'' \<mapsto> m)) |` set user_columns)
                       (Some ''Invalid password! Please try again.''),
                     db\<lparr>login_logs := login_logs db @ [(Some m, False)]\<rparr>,
                     Map.empty)) \<and>
            fst (snd (login db s req (Some m))) = snd (verify_password db (Some m) p)) \<and>
         (form req ''password'' = None \<or> form req ''password'' = Some [] \<longrightarrow>
            login db s req (Some m) =
              (Login_page ((r(''member_id'' \<mapsto> m)) |` set user_columns)
                 (Some ''Password is required!''),
               db, Map.empty)) \<and>
         (\<forall>q. login_logs (snd (verify_password db (Some m) q)) \<noteq> login_logs db)"
proof (intro conjI allI impI)
  fix p assume p: "form req ''password'' = Some p \<and> p \<noteq> []"
  then have f: "form req ''password'' = Some p" and ne: "p \<noteq> []" by simp_all
  note l = login_post_nonempty [OF assms f ne, of s]
  show "login db s req (Some m) =
              (if r ''password'' = Some p
               then (Redirect (User_profile (Some m)),
                     db\<lparr>login_logs := login_logs db @ [(Some m, True)]\<rparr>,
                     [''member_id'' \<mapsto> SStr m, ''logged_in'' \<mapsto> SBool True,
                      ''_permanent'' \<mapsto> SBool True])
               else (Login_page ((r(''member_id'' \<mapsto> m)) |` set user_columns)
                       (Some ''Invalid password! Please try again.''),
                     db\<lparr>login_logs := login_logs db @ [(Some m, False)]\<rparr>,
                     Map.empty))"
    by (rule l)
  show "fst (snd (login db s req (Some m))) = snd (verify_password db (Some m) p)"
    unfolding l by (simp add: verify_password_existing [OF assms(1)])
next
  assume "form req ''password'' = None \<or> form req ''password'' = Some []"
  then show "login db s req (Some m) =
              (Login_page ((r(''member_id'' \<mapsto> m)) |` set user_columns)
                 (Some ''Password is required!''),
               db, Map.empty)"
    by (rule login_post_without_password [OF assms])
next
  fix q show "login_logs (snd (verify_password db (Some m) q)) \<noteq> login_logs db"
    by (simp add: verify_password_existing [OF assms(1)])
qed

theorem login_password_submission_witness:
  "login example_db Map.empty (post_password ''123456'') (Some ''M042'') =
     (Redirect (User_profile (Some ''M042'')),
      example_db\<lparr>login_logs := [(Some ''M042'', True)]\<rparr>,
      [''member_id'' \<mapsto> SStr ''M042'', ''logged_in'' \<mapsto> SBool True,
       ''_permanent'' \<mapsto> SBool True]) \<and>
   fst (login example_db Map.empty (post_password ''wrong'') (Some ''M042'')) =
     Login_page ((example_row ''Asha'' ''123456'')(''member_id'' \<mapsto> ''M042'') |` set user_columns)
       (Some ''Invalid password! Please try again.'') \<and>
   snd (login example_db Map.empty (post_password ''wrong'') (Some ''M042'')) =
     (example_db\<lparr>login_logs := [(Some ''M042'', False)]\<rparr>, Map.empty) \<and>
   login example_db (member_session ''M042'') (post_password []) (Some ''M042'') =
     (Login_page ((example_row ''Asha'' ''123456'')(''member_id'' \<mapsto> ''M042'') |` set user_columns)
        (Some ''Password is required!''),
      example_db, Map.empty) \<and>
   login example_db (member_session ''M042'') post_without_password (Some ''M042'') =
     (Login_page ((example_row ''Asha'' ''123456'')(''member_id'' \<mapsto> ''M042'') |` set user_columns)
        (Some ''Password is required!''),
      example_db, Map.empty)"
proof -
  have p1: "request_method (post_password x) = POST"
           "form (post_password x) ''password'' = Some x" for x
    by (simp_all add: post_password_def)
  have p2: "request_method post_without_password = POST"
           "form post_without_password ''password'' = None"
    by (simp_all add: post_without_password_def)
  have r: "example_row ''Asha'' ''123456'' ''password'' = Some ''123456''"
    by (simp add: example_row_def)
  have l: "login_logs example_db = []" by (simp add: example_db_def)
  have ne: "''123456'' \<noteq> []" "''wrong'' \<noteq> []"
           "(Some ''123456'' = Some ''wrong'') = False"
    by simp_all
  note t1 = login_password_submission [OF example_users(1) p1(1), of "''123456''" Map.empty]
  note t2 = login_password_submission [OF example_users(1) p1(1), of "''wrong''" Map.empty]
  note t3 = login_password_submission [OF example_users(1) p1(1), of "[]" "member_session ''M042''"]
  note t4 = login_password_submission [OF example_users(1) p2(1), of "member_session ''M042''"]
  have a1: "login example_db Map.empty (post_password ''123456'') (Some ''M042'') =
     (if example_row ''Asha'' ''123456'' ''password'' = Some ''123456''
      then (Redirect (User_profile (Some ''M042'')),
            example_db\<lparr>login_logs := login_logs example_db @ [(Some ''M042'', True)]\<rparr>,
            [''member_id'' \<mapsto> SStr ''M042'', ''logged_in'' \<mapsto> SBool True,
             ''_permanent'' \<mapsto> SBool True])
      else (Login_page ((example_row ''Asha'' ''123456'')(''member_id'' \<mapsto> ''M042'') |` set user_columns)
              (Some ''Invalid password! Please try again.''),
            example_db\<lparr>login_logs := login_logs example_db @ [(Some ''M042'', False)]\<rparr>,
            Map.empty))"
    by (rule t1 [THEN conjunct1, rule_format, OF conjI [OF p1(2) ne(1)], THEN conjunct1])
  have a2: "login example_db Map.empty (post_password ''wrong'') (Some ''M042'') =
     (if example_row ''Asha'' ''123456'' ''password'' = Some ''wrong''
      then (Redirect (User_profile (Some ''M042'')),
            example_db\<lparr>login_logs := login_logs example_db @ [(Some ''M042'', True)]\<rparr>,
            [''member_id'' \<mapsto> SStr ''M042'', ''logged_in'' \<mapsto> SBool True,
             ''_permanent'' \<mapsto> SBool True])
      else (Login_page ((example_row ''Asha'' ''123456'')(''member_id'' \<mapsto> ''M042'') |` set user_columns)
              (Some ''Invalid password! Please try again.''),
            example_db\<lparr>login_logs := login_logs example_db @ [(Some ''M042'', False)]\<rparr>,
            Map.empty))"
    by (rule t2 [THEN conjunct1, rule_format, OF conjI [OF p1(2) ne(2)], THEN conjunct1])
  have c1: "login example_db Map.empty (post_password ''123456'') (Some ''M042'') =
     (Redirect (User_profile (Some ''M042'')),
      example_db\<lparr>login_logs := [(Some ''M042'', True)]\<rparr>,
      [''member_id'' \<mapsto> SStr ''M042'', ''logged_in'' \<mapsto> SBool True,
       ''_permanent'' \<mapsto> SBool True])"
    unfolding a1 by (simp only: r l if_True append_Nil simp_thms)
  have a2': "login example_db Map.empty (post_password ''wrong'') (Some ''M042'') =
     (Login_page ((example_row ''Asha'' ''123456'')(''member_id'' \<mapsto> ''M042'') |` set user_columns)
              (Some ''Invalid password! Please try again.''),
            example_db\<lparr>login_logs := [(Some ''M042'', False)]\<rparr>,
            Map.empty)"
    unfolding a2 by (simp only: r l ne(3) if_False append_Nil)
  have c2: "fst (login example_db Map.empty (post_password ''wrong'') (Some ''M042'')) =
     Login_page ((example_row ''Asha'' ''123456'')(''member_id'' \<mapsto> ''M042'') |` set user_columns)
       (Some ''Invalid password! Please try again.'')"
    unfolding a2' by (simp only: fst_conv)
  have c3: "snd (login example_db Map.empty (post_password ''wrong'') (Some ''M042'')) =
     (example_db\<lparr>login_logs := [(Some ''M042'', False)]\<rparr>, Map.empty)"
    unfolding a2' by (simp only: snd_conv)
  have c4: "login example_db (member_session ''M042'') (post_password []) (Some ''M042'') =
     (Login_page ((example_row ''Asha'' ''123456'')(''member_id'' \<mapsto> ''M042'') |` set user_columns)
        (Some ''Password is required!''),
      example_db, Map.empty)"
    by (rule t3 [THEN conjunct2, THEN conjunct1, rule_format, OF disjI2 [OF p1(2)]])
  have c5: "login example_db (member_session ''M042'') post_without_password (Some ''M042'') =
     (Login_page ((example_row ''Asha'' ''123456'')(''member_id'' \<mapsto> ''M042'') |` set user_columns)
        (Some ''Password is required!''),
      example_db, Map.empty)"
    by (rule t4 [THEN conjunct2, THEN conjunct1, rule_format, OF disjI1 [OF p2(2)]])
  show ?thesis by (intro conjI c1 c2 c3 c4 c5)
qed

text \<open>
  Claim C6 as stated fails at the empty password. Member \<open>M043\<close> has the empty
  string as stored password, so the empty submission is the correct password
  (\<^verbatim>\<open>verify_password\<close> would accept it); the handler answers
  \<^verbatim>\<open>Password is required!\<close> before any verification: nothing is logged and
  no session is established.
\<close>

theorem login_empty_password_counterexample:
  "fst (verify_password example_db (Some ''M043'') '''') \<and>
   login example_db Map.empty (post_password '''') (Some ''M043'') =
     (Login_page ((example_row ''Ravi'' '''')(''member_id'' \<mapsto> ''M043'') |` set user_columns)
        (Some ''Password is required!''),
      example_db, Map.empty) \<and>
   login_logs (fst (snd (login example_db Map.empty (post_password '''') (Some ''M043'')))) = []"
proof -
  have r: "example_row ''Ravi'' '''' ''password'' = Some ''''"
    by (simp add: example_row_def)
  have v: "fst (verify_password example_db (Some ''M043'') '''')"
    using r by (simp add: verify_password_existing [OF example_users(2)])
  have l: "login example_db Map.empty (post_password '''') (Some ''M043'') =
     (Login_page ((example_row ''Ravi'' '''')(''member_id'' \<mapsto> ''M043'') |` set user_columns)
        (Some ''Password is required!''),
      example_db, Map.empty)"
    by (simp add: login_def get_user_by_id_existing [OF example_users(2)] post_password_def)
  have e: "login_logs example_db = []" by (simp add: example_db_def)
  from v l e show ?thesis by simp
qed

section \<open>Changing one's own password\<close>

text \<open>
  Claim C7, amended. A member \<open>m\<close> with a row is logged in and posts a current
  password \<open>c\<close> that is not empty and a new password \<open>n\<close> of at least six
  characters, confirmed. If \<open>c\<close> is not the stored password, the change is refused:
  only the failed attempt is logged, table \<^verbatim>\<open>users\<close> and the session's login
  keys stay as they were. If \<open>c\<close> is the stored password, the stored password becomes
  \<open>n\<close>, the session is cleared (it holds the flashed message only), a login with
  \<open>n\<close> then succeeds, and a login with the old password \<open>c\<close> fails whenever
  \<open>c\<close> differs from \<open>n\<close>.
\<close>

theorem change_own_password_effect:
  assumes "truthy (s ''logged_in'')" and "s ''member_id'' = Some (SStr m)"
      and "users db m = Some r"
      and "form req ''current_password'' = Some c" and "form req ''new_password'' = Some n"
      and "form req ''confirm_password'' = Some n" and "c \<noteq> []" and "6 \<le> length n"
  shows "(r ''password'' \<noteq> Some c \<longrightarrow>
            change_own_password now db s req =
              (Redirect (User_profile (Some m)),
               db\<lparr>login_logs := login_logs db @ [(Some m, False)]\<rparr>,
               flash ''Current password is incorrect!'' ''error'' s)) \<and>
         (r ''password'' = Some c \<longrightarrow>
            change_own_password now db s req =
              (Redirect (Login (Some m)),
               db\<lparr>login_logs := login_logs db @ [(Some m, True)],
                  users := (users db)(m \<mapsto> r(''password'' \<mapsto> n, ''updated_at'' \<mapsto> now))\<rparr>,
               flash ''Please login with your new password'' ''info'' Map.empty) \<and>
            snd (snd (change_own_password now db s req)) ''member_id'' = None \<and>
            snd (snd (change_own_password now db s req)) ''logged_in'' = None \<and>
            fst (login (fst (snd (change_own_password now db s req)))
                       (snd (snd (change_own_password now db s req)))
                       \<lparr>request_method = POST, form = [''password'' \<mapsto> n], host_url = h\<rparr> (Some m))
              = Redirect (User_profile (Some m)) \<and>
            (c \<noteq> n \<longrightarrow>
               login (fst (snd (change_own_password now db s req)))
                     (snd (snd (change_own_password now db s req)))
                     \<lparr>request_method = POST, form = [''password'' \<mapsto> c], host_url = h\<rparr> (Some m)
               = (Login_page ((r(''password'' \<mapsto> n, ''updated_at'' \<mapsto> now, ''member_id'' \<mapsto> m))
                               |` set user_columns)
                    (Some ''Invalid password! Please try again.''),
                  db\<lparr>login_logs := login_logs db @ [(Some m, True), (Some m, False)],
                     users := (users db)(m \<mapsto> r(''password'' \<mapsto> n, ''updated_at'' \<mapsto> now))\<rparr>,
                  Map.empty)))"
proof -
  note f = change_own_password_valid_form [OF assms(1,2,4,5,6,7,8), of now db]
  note d = db_change_own_password_existing [OF assms(3), of now c n]
  have n: "n \<noteq> []" using assms(8) by auto
  let ?db' = "db\<lparr>login_logs := login_logs db @ [(Some m, True)],
                  users := (users db)(m \<mapsto> r(''password'' \<mapsto> n, ''updated_at'' \<mapsto> now))\<rparr>"
  let ?s' = "flash ''Please login with your new password'' ''info'' Map.empty"
  have u: "users ?db' m = Some (r(''password'' \<mapsto> n, ''updated_at'' \<mapsto> now))" by simp
  have A: "change_own_password now db s req =
              (Redirect (User_profile (Some m)),
               db\<lparr>login_logs := login_logs db @ [(Some m, False)]\<rparr>,
               flash ''Current password is incorrect!'' ''error'' s)"
    if "r ''password'' \<noteq> Some c"
    using that by (simp add: f d)
  have B: "change_own_password now db s req = (Redirect (Login (Some m)), ?db', ?s')"
    if "r ''password'' = Some c"
    using that by (simp add: f d)
  have S: "?s' ''member_id'' = None" "?s' ''logged_in'' = None"
    by (simp_all add: flash_def)
  have L1: "fst (login ?db' ?s' \<lparr>request_method = POST, form = [''password'' \<mapsto> n], host_url = h\<rparr> (Some m))
              = Redirect (User_profile (Some m))"
    using n login_post_nonempty [OF u, of "\<lparr>request_method = POST, form = [''password'' \<mapsto> n], host_url = h\<rparr>" n ?s']
    by simp
  have L2: "login ?db' ?s' \<lparr>request_method = POST, form = [''password'' \<mapsto> c], host_url = h\<rparr> (Some m)
               = (Login_page ((r(''password'' \<mapsto> n, ''updated_at'' \<mapsto> now, ''member_id'' \<mapsto> m))
                               |` set user_columns)
                    (Some ''Invalid password! Please try again.''),
                  db\<lparr>login_logs := login_logs db @ [(Some m, True), (Some m, False)],
                     users := (users db)(m \<mapsto> r(''password'' \<mapsto> n, ''updated_at'' \<mapsto> now))\<rparr>,
                  Map.empty)"
    if "c \<noteq> n"
    using that assms(7) login_post_nonempty [OF u, of "\<lparr>request_method = POST, form = [''password'' \<mapsto> c], host_url = h\<rparr>" c ?s']
    by (simp del: restrict_fun_upd)
  show ?thesis
  proof (intro conjI impI)
    assume "r ''password'' \<noteq> Some c"
    then show "change_own_password now db s req =
              (Redirect (User_profile (Some m)),
               db\<lparr>login_logs := login_logs db @ [(Some m, False)]\<rparr>,
               flash ''Current password is incorrect!'' ''error'' s)"
      by (rule A)
  next
    assume p: "r ''password'' = Some c"
    show "change_own_password now db s req = (Redirect (Login (Some m)), ?db', ?s')"
      by (rule B [OF p])
  next
    assume p: "r ''password'' = Some c"
    show "snd (snd (change_own_password now db s req)) ''member_id'' = None"
      by (simp only: B [OF p] snd_conv S)
  next
    assume p: "r ''password'' = Some c"
    show "snd (snd (change_own_password now db s req)) ''logged_in'' = None"
      by (simp only: B [OF p] snd_conv S)
  next
    assume p: "r ''password'' = Some c"
    show "fst (login (fst (snd (change_own_password now db s req)))
                       (snd (snd (change_own_password now db s req)))
                       \<lparr>request_method = POST, form = [''password'' \<mapsto> n], host_url = h\<rparr> (Some m))
              = Redirect (User_profile (Some m))"
      by (simp only: B [OF p] snd_conv fst_conv L1)
  next
    assume p: "r ''password'' = Some c" and cn: "c \<noteq> n"
    show "login (fst (snd (change_own_password now db s req)))
                     (snd (snd (change_own_password now db s req)))
                     \<lparr>request_method = POST, form = [''password'' \<mapsto> c], host_url = h\<rparr> (Some m)
               = (Login_page ((r(''password'' \<mapsto> n, ''updated_at'' \<mapsto> now, ''member_id'' \<mapsto> m))
                               |` set user_columns)
                    (Some ''Invalid password! Please try again.''),
                  db\<lparr>login_logs := login_logs db @ [(Some m, True), (Some m, False)],
                     users := (users db)(m \<mapsto> r(''password'' \<mapsto> n, ''updated_at'' \<mapsto> now))\<rparr>,
                  Map.empty)"
      by (simp only: B [OF p] snd_conv fst_conv L2 [OF cn])
  qed
qed

theorem change_own_password_effect_witness:
  "fst (change_own_password ''2026-01-01'' example_db (member_session ''M042'')
          (change_request ''123456'' ''abcdef'')) = Redirect (Login (Some ''M042'')) \<and>
   snd (snd (change_own_password ''2026-01-01'' example_db (member_session ''M042'')
          (change_request ''123456'' ''abcdef''))) ''logged_in'' = None \<and>
   fst (login
          (fst (snd (change_own_password ''2026-01-01'' example_db (member_session ''M042'')
                       (change_request ''123456'' ''abcdef''))))
          (snd (snd (change_own_password ''2026-01-01'' example_db (member_session ''M042'')
                       (change_request ''123456'' ''abcdef''))))
          \<lparr>request_method = POST, form = [''password'' \<mapsto> ''abcdef''], host_url = ''http://host/''\<rparr>
          (Some ''M042'')) = Redirect (User_profile (Some ''M042'')) \<and>
   snd (snd (login
          (fst (snd (change_own_password ''2026-01-01'' example_db (member_session ''M042'')
                       (change_request ''123456'' ''abcdef''))))
          (snd (snd (change_own_password ''2026-01-01'' example_db (member_session ''M042'')
                       (change_request ''123456'' ''abcdef''))))
          \<lparr>request_method = POST, form = [''password'' \<mapsto> ''123456''], host_url = ''http://host/''\<rparr>
          (Some ''M042''))) = Map.empty \<and>
   users (fst (snd (change_own_password ''2026-01-01'' example_db (member_session ''M042'')
          (change_request ''wrong!'' ''abcdef'')))) = users example_db"
proof -
  have ne: "''123456'' \<noteq> []" "''wrong!'' \<noteq> []" "6 \<le> length ''abcdef''"
           "''123456'' \<noteq> ''abcdef''"
           "example_row ''Asha'' ''123456'' ''password'' \<noteq> Some ''wrong!''"
    by (simp_all add: example_row_password)
  note t1 = change_own_password_effect
    [where s = "member_session ''M042''" and m = "''M042''" and db = example_db
       and r = "example_row ''Asha'' ''123456''" and req = "change_request ''123456'' ''abcdef''"
       and c = "''123456''" and n = "''abcdef''" and now = "''2026-01-01''"
       and h = "''http://host/''",
     OF member_session_facts example_users(1) change_request_facts ne(1) ne(3)]
  note t2 = change_own_password_effect
    [where s = "member_session ''M042''" and m = "''M042''" and db = example_db
       and r = "example_row ''Asha'' ''123456''" and req = "change_request ''wrong!'' ''abcdef''"
       and c = "''wrong!''" and n = "''abcdef''" and now = "''2026-01-01''"
       and h = "''http://host/''",
     OF member_session_facts example_users(1) change_request_facts ne(2) ne(3)]
  have ok: "example_row ''Asha'' ''123456'' ''password'' = Some ''123456''"
    by (rule example_row_password)
  let ?X = "change_own_password ''2026-01-01'' example_db (member_session ''M042'')
              (change_request ''123456'' ''abcdef'')"
  have c1: "fst ?X = Redirect (Login (Some ''M042''))"
    using t1 ok by simp
  have c2: "snd (snd ?X) ''logged_in'' = None"
    using t1 ok by blast
  have c3: "fst (login (fst (snd ?X)) (snd (snd ?X))
          \<lparr>request_method = POST, form = [''password'' \<mapsto> ''abcdef''], host_url = ''http://host/''\<rparr>
          (Some ''M042'')) = Redirect (User_profile (Some ''M042''))"
    using t1 ok by blast
  have c4: "snd (snd (login (fst (snd ?X)) (snd (snd ?X))
          \<lparr>request_method = POST, form = [''password'' \<mapsto> ''123456''], host_url = ''http://host/''\<rparr>
          (Some ''M042''))) = Map.empty"
  proof -
    have "login (fst (snd ?X)) (snd (snd ?X))
          \<lparr>request_method = POST, form = [''password'' \<mapsto> ''123456''], host_url = ''http://host/''\<rparr>
          (Some ''M042'')
        = (Login_page (((example_row ''Asha'' ''123456'')(''password'' \<mapsto> ''abcdef'',
                          ''updated_at'' \<mapsto> ''2026-01-01'', ''member_id'' \<mapsto> ''M042''))
                        |` set user_columns)
             (Some ''Invalid password! Please try again.''),
           example_db\<lparr>login_logs := login_logs example_db @ [(Some ''M042'', True), (Some ''M042'', False)],
              users := (users example_db)(''M042'' \<mapsto> (example_row ''Asha'' ''123456'')
                         (''password'' \<mapsto> ''abcdef'', ''updated_at'' \<mapsto> ''2026-01-01''))\<rparr>,
           Map.empty)"
      using t1 ok ne(4) by blast
    then show ?thesis by (simp only: snd_conv)
  qed
  have c5: "users (fst (snd (change_own_password ''2026-01-01'' example_db (member_session ''M042'')
          (change_request ''wrong!'' ''abcdef'')))) = users example_db"
    using t2 ne(5) by simp
  from c1 c2 c3 c4 c5 show ?thesis by blast
qed

text \<open>
  Claim C7 as stated fails when the new password is the old one: nothing in the handler
  or in the store compares them, the change succeeds, and the login with the old password
  succeeds afterwards.
\<close>

theorem change_own_password_same_password_counterexample:
  "fst (change_own_password ''2026-01-01'' example_db (member_session ''M042'')
          (change_request ''123456'' ''123456'')) = Redirect (Login (Some ''M042'')) \<and>
   fst (login
          (fst (snd (change_own_password ''2026-01-01'' example_db (member_session ''M042'')
                       (change_request ''123456'' ''123456''))))
          (snd (snd (change_own_password ''2026-01-01'' example_db (member_session ''M042'')
                       (change_request ''123456'' ''123456''))))
          (post_password ''123456'') (Some ''M042'')) = Redirect (User_profile (Some ''M042''))"
proof -
  have ne: "''123456'' \<noteq> []" "6 \<le> length ''123456''" by simp_all
  have X: "change_own_password ''2026-01-01'' example_db (member_session ''M042'')
              (change_request ''123456'' ''123456'')
           = (Redirect (Login (Some ''M042'')),
              example_db\<lparr>login_logs := login_logs example_db @ [(Some ''M042'', True)],
                 users := (users example_db)(''M042'' \<mapsto>
                    (example_row ''Asha'' ''123456'')(''password'' \<mapsto> ''123456'',
                                                     ''updated_at'' \<mapsto> ''2026-01-01''))\<rparr>,
              flash ''Please login with your new password'' ''info'' Map.empty)"
    by (simp add: change_own_password_valid_form [OF member_session_facts change_request_facts ne]
          db_change_own_password_existing [OF example_users(1)] example_row_password)
  have u: "users (example_db\<lparr>login_logs := login_logs example_db @ [(Some ''M042'', True)],
                 users := (users example_db)(''M042'' \<mapsto>
                    (example_row ''Asha'' ''123456'')(''password'' \<mapsto> ''123456'',
                                                     ''updated_at'' \<mapsto> ''2026-01-01''))\<rparr>) ''M042''
           = Some ((example_row ''Asha'' ''123456'')(''password'' \<mapsto> ''123456'',
                                                     ''updated_at'' \<mapsto> ''2026-01-01''))"
    by simp
  have p: "request_method (post_password ''123456'') = POST"
          "form (post_password ''123456'') ''password'' = Some ''123456''"
    by (simp_all add: post_password_def)
  show ?thesis
    unfolding X using login_post_nonempty [OF u p ne(1)] by simp
qed

section \<open>The admin's view of a profile\<close>

text \<open>
  Claim C5. With \<^verbatim>\<open>is_admin\<close> in the session and a row for \<open>m\<close>,
  \<^verbatim>\<open>admin_view_profile\<close> renders the profile of \<open>m\<close> with
  \<^verbatim>\<open>is_admin_view\<close> set, and returns the database and the session as they
  were. The handler takes no password, and its response is the same whatever password
  (or \<^verbatim>\<open>NULL\<close>) is stored for \<open>m\<close>. \<^verbatim>\<open>login_logs\<close> is
  unchanged, while every call of \<^verbatim>\<open>verify_password\<close> for \<open>m\<close> changes
  it: the handler never verifies a password.
\<close>

theorem admin_view_profile_needs_no_password:
  assumes "truthy (s ''is_admin'')" and "users db m = Some r"
  shows "(\<exists>qr url. admin_view_profile dumps qr_png db s req m =
             (Profile_page ((r(''member_id'' \<mapsto> m)) |` set user_columns) qr url True, db, s)) \<and>
         admin_view_profile dumps qr_png
             (db\<lparr>users := (users db)(m \<mapsto> r(''password'' := pw))\<rparr>) s req m
           = (fst (admin_view_profile dumps qr_png db s req m),
              db\<lparr>users := (users db)(m \<mapsto> r(''password'' := pw))\<rparr>, s) \<and>
         login_logs (fst (snd (admin_view_profile dumps qr_png db s req m))) = login_logs db \<and>
         login_logs (snd (verify_password db (Some m) p)) \<noteq> login_logs db"
proof -
  let ?db' = "db\<lparr>users := (users db)(m \<mapsto> r(''password'' := pw))\<rparr>"
  have a: "admin_view_profile dumps qr_png d s req m =
        (case get_user_by_id d (Some m) of
          None \<Rightarrow> (Redirect Admin_users, d, flash ''User not found!'' ''error'' s)
        | Some user \<Rightarrow>
            (case generate_qr_code dumps qr_png (Some m) (host_url req) of
               (qr_code_data, login_url) \<Rightarrow>
                 (Profile_page user qr_code_data
                    (case login_url of
                       None \<Rightarrow> host_url req @ ''login/'' @ m
                     | Some u \<Rightarrow> if u = [] then host_url req @ ''login/'' @ m else u)
                    True,
                  d, s)))" for d
    using assms(1) by (simp add: admin_view_profile_def admin_required_def)
  have 1: "\<exists>qr url. admin_view_profile dumps qr_png db s req m =
             (Profile_page ((r(''member_id'' \<mapsto> m)) |` set user_columns) qr url True, db, s)"
    by (simp add: a get_user_by_id_existing [OF assms(2)] split: prod.split)
  have 2: "admin_view_profile dumps qr_png ?db' s req m
           = (fst (admin_view_profile dumps qr_png db s req m), ?db', s)"
    by (simp add: a get_user_by_id_password_independent [OF assms(2)]
          get_user_by_id_existing [OF assms(2)] split: prod.split)
  have 3: "login_logs (fst (snd (admin_view_profile dumps qr_png db s req m))) = login_logs db"
    using 1 by auto
  have 4: "login_logs (snd (verify_password db (Some m) p)) \<noteq> login_logs db"
    by (simp add: verify_password_existing [OF assms(2)])
  from 1 2 3 4 show ?thesis by blast
qed

theorem admin_view_profile_needs_no_password_witness:
  "truthy (admin_session ''is_admin'') \<and>
   session_member_id admin_session = None \<and>
   (\<exists>qr url. admin_view_profile example_dumps example_qr_png example_db admin_session get_request ''M042''
      = (Profile_page ((example_row ''Asha'' ''123456'')(''member_id'' \<mapsto> ''M042'') |` set user_columns)
           qr url True, example_db, admin_session)) \<and>
   fst (admin_view_profile example_dumps example_qr_png
         (example_db\<lparr>users := (users example_db)(''M042'' \<mapsto>
              (example_row ''Asha'' ''123456'')(''password'' \<mapsto> ''other-secret''))\<rparr>)
         admin_session get_request ''M042'')
     = fst (admin_view_profile example_dumps example_qr_png example_db admin_session get_request ''M042'') \<and>
   login_logs (fst (snd (admin_view_profile example_dumps example_qr_png example_db admin_session
                           get_request ''M042''))) = []"
proof -
  note t = admin_view_profile_needs_no_password
     [where s = admin_session and db = example_db and m = "''M042''"
        and r = "example_row ''Asha'' ''123456''"
        and dumps = example_dumps and qr_png = example_qr_png and req = get_request
        and pw = "Some ''other-secret''" and p = "''123456''",
      OF admin_session_is_admin example_users(1)]
  have n: "session_member_id admin_session = None"
    by (simp add: session_member_id_def admin_session_def)
  have l: "login_logs example_db = []" by (simp add: example_db_def)
  have c1: "\<exists>qr url. admin_view_profile example_dumps example_qr_png example_db admin_session get_request ''M042''
      = (Profile_page ((example_row ''Asha'' ''123456'')(''member_id'' \<mapsto> ''M042'') |` set user_columns)
           qr url True, example_db, admin_session)"
    using t by blast
  have c2: "fst (admin_view_profile example_dumps example_qr_png
         (example_db\<lparr>users := (users example_db)(''M042'' \<mapsto>
              (example_row ''Asha'' ''123456'')(''password'' \<mapsto> ''other-secret''))\<rparr>)
         admin_session get_request ''M042'')
     = fst (admin_view_profile example_dumps example_qr_png example_db admin_session get_request ''M042'')"
    using t by (simp only: fst_conv)
  have c3: "login_logs (fst (snd (admin_view_profile example_dumps example_qr_png example_db admin_session
                           get_request ''M042''))) = []"
    using t l by simp
  from admin_session_is_admin n c1 c2 c3 show ?thesis by blast
qed

section \<open>Bulk update\<close>

text \<open>
  Claim C8, amended. For a dictionary of updates (its keys are distinct), the result of
  \<^verbatim>\<open>bulk_update_users\<close> is determined record by record from the table it
  starts with. \<^verbatim>\<open>success_count\<close> is the number of identifiers that have a
  row and whose \<^verbatim>\<open>UPDATE\<close> does not raise; \<^verbatim>\<open>errors\<close> has one
  entry, in order, for each identifier that has a row and whose \<^verbatim>\<open>UPDATE\<close>
  raises; an identifier without a row is in neither. Every row ends as its own record
  alone leaves it: a record that raises keeps its row as it was and undoes nothing of the
  others, and rows that no record names are untouched.
\<close>

theorem bulk_update_users_result:
  assumes "distinct (map fst updates_data)"
  shows "bulk_update_users now next_year db updates_data =
           (length (filter (\<lambda>(m, u). users db m \<noteq> None \<and> \<not> sets_name_null u) updates_data),
            map (\<lambda>(m, u). bulk_error_message m)
              (filter (\<lambda>(m, u). users db m \<noteq> None \<and> sets_name_null u) updates_data),
            db\<lparr>users := \<lambda>m. case map_of updates_data m of
                                None \<Rightarrow> users db m
                              | Some u \<Rightarrow> updated_row now next_year (users db) m u\<rparr>)"
  unfolding bulk_update_users_def
  using bulk_update_loop_result [OF assms, of now next_year 0 "[]" db] by simp

theorem bulk_update_users_result_witness:
  "distinct (map fst example_updates) \<and>
   fst (bulk_update_users ''2026-01-01'' example_next_year example_db example_updates) = 1 \<and>
   fst (snd (bulk_update_users ''2026-01-01'' example_next_year example_db example_updates))
     = [''Error updating M043: NOT NULL constraint failed: users.name''] \<and>
   users (snd (snd (bulk_update_users ''2026-01-01'' example_next_year example_db example_updates)))
       ''M043'' = users example_db ''M043'' \<and>
   users (snd (snd (bulk_update_users ''2026-01-01'' example_next_year example_db example_updates)))
       ''M999'' = None \<and>
   (case users (snd (snd (bulk_update_users ''2026-01-01'' example_next_year example_db
                            example_updates))) ''M042'' of
      None \<Rightarrow> None
    | Some r \<Rightarrow> r ''membership_renewal_date'') = Some ''2099-12-31''"
proof -
  note t = bulk_update_users_result
             [OF example_updates_distinct, of "''2026-01-01''" example_next_year example_db]
  have c1: "fst (bulk_update_users ''2026-01-01'' example_next_year example_db example_updates) = 1"
    unfolding t by (simp add: example_updates_def example_users example_sets_name_null)
  have c2: "fst (snd (bulk_update_users ''2026-01-01'' example_next_year example_db example_updates))
     = [''Error updating M043: NOT NULL constraint failed: users.name'']"
    unfolding t
    by (simp add: example_updates_def example_users example_sets_name_null bulk_error_message_def)
  have c3: "users (snd (snd (bulk_update_users ''2026-01-01'' example_next_year example_db
                               example_updates))) ''M043'' = users example_db ''M043''"
    unfolding t
    by (simp add: example_updates_def example_users example_sets_name_null updated_row_def)
  have c4: "users (snd (snd (bulk_update_users ''2026-01-01'' example_next_year example_db
                               example_updates))) ''M999'' = None"
    unfolding t
    by (simp add: example_updates_def example_users updated_row_def)
  have c5: "(case users (snd (snd (bulk_update_users ''2026-01-01'' example_next_year example_db
                            example_updates))) ''M042'' of
      None \<Rightarrow> None
    | Some r \<Rightarrow> r ''membership_renewal_date'') = Some ''2099-12-31''"
    unfolding t
    by (simp add: example_updates_def example_users example_sets_name_null updated_row_def
          build_set_clause_def renewal_assignment_def apply_assignments_def)
  from example_updates_distinct c1 c2 c3 c4 c5 show ?thesis by blast
qed

text \<open>
  Claim C8 as stated fails for an identifier without a row. The handler's dictionary for
  the identifiers \<open>M042\<close>, \<open>M043\<close> and \<open>M999\<close> (the last has no row) and
  \<^verbatim>\<open>membership_type = lifetime\<close> gives \<^verbatim>\<open>success_count = 2\<close> and
  an empty \<^verbatim>\<open>errors\<close>: the identifier that matched no row is not reflected
  in the list.
\<close>

theorem bulk_update_missing_row_counterexample:
  "users example_db ''M999'' = None \<and>
   fst (bulk_update_users ''2026-01-01'' example_next_year example_db
          (bulk_edit_updates [''M042'', ''M043'', ''M999''] ''membership_type'' ''lifetime'')) = 2 \<and>
   fst (snd (bulk_update_users ''2026-01-01'' example_next_year example_db
          (bulk_edit_updates [''M042'', ''M043'', ''M999''] ''membership_type'' ''lifetime''))) = []"
proof -
  have d: "distinct (map fst [(''M042'', [(''membership_type'', Some ''lifetime'')]),
      (''M043'', [(''membership_type'', Some ''lifetime'')]),
      (''M999'', [(''membership_type'', Some ''lifetime'')])])"
    by simp
  note t = bulk_update_loop_result [OF d, of "''2026-01-01''" example_next_year 0 "[]" example_db]
  have c1: "fst (bulk_update_users ''2026-01-01'' example_next_year example_db
          (bulk_edit_updates [''M042'', ''M043'', ''M999''] ''membership_type'' ''lifetime'')) = 2"
    unfolding example_bulk_edit_updates bulk_update_users_def t
    by (simp add: example_users example_sets_name_null)
  have c2: "fst (snd (bulk_update_users ''2026-01-01'' example_next_year example_db
          (bulk_edit_updates [''M042'', ''M043'', ''M999''] ''membership_type'' ''lifetime''))) = []"
    unfolding example_bulk_edit_updates bulk_update_users_def t
    by (simp add: example_users example_sets_name_null)
  from example_users(3) c1 c2 show ?thesis by blast
qed

end
